theory Spec2Isabelle
  imports Complex_Main "HOL-Library.List_Lexorder" "HOL-Library.Char_ord"
begin

section \<open>Attribute tables\<close>

text \<open>
  The script loads six shapefiles with \<^verbatim>\<open>gpd.read_file\<close>. A GeoDataFrame is modelled as
  the list of its rows, a row as a record of the columns the script reads. A cell of a
  categorical column of an overlay table may be missing (\<open>None\<close>), as a blank
  attribute is after loading. Numeric columns hold a real number in every row: sums and
  quotients are exact, the rounding of binary floating point is not modelled. Every
  basemap row carries its area identifier and its unit name.
\<close>

record 'g geo_row =
  geometry :: 'g

record 'g length_row = "'g geo_row" +
  Shape_Leng :: real

record 'g slope_row = "'g geo_row" +
  Face :: "string option"

record 'g channel_row = "'g geo_row" +
  Class :: "string option"
  channel :: "string option"

record 'g survey_row = "'g geo_row" +
  Tot_dist_m :: real
  Material :: "string option"
  Saturation :: "string option"
  HS_Hyd_Uni :: "string option"

record ('g, 'a) area_row = "'g geo_row" +
  UNIT :: string
  FloodArea :: 'a

text \<open>
  Errors a statement of the script can raise. \<open>EmptyDenominator\<close> is the error the
  specification names for a ratio with a zero denominator; no statement of the script
  raises it.
\<close>

datatype error = IndexError | ZeroDivisionError | ValueError | RecursionError | EmptyDenominator

section \<open>The pandas operations the script calls\<close>

text \<open>\<^verbatim>\<open>df[col].sum()\<close>\<close>

definition series_sum :: "('r \<Rightarrow> real) \<Rightarrow> 'r list \<Rightarrow> real" where
  "series_sum col df = sum_list (map col df)"

text \<open>\<^verbatim>\<open>df[col].count()\<close>: the number of cells of the column that are not missing.\<close>

definition series_count :: "('r \<Rightarrow> 'v option) \<Rightarrow> 'r list \<Rightarrow> nat" where
  "series_count col df = length (filter (\<lambda>r. col r \<noteq> None) df)"

text \<open>The row count of \<^verbatim>\<open>df.shape\<close>\<close>

definition row_count :: "'r list \<Rightarrow> nat" where
  "row_count df = length df"

text \<open>
  \<^verbatim>\<open>df.count()\<close>: the series of the counts of the columns, one entry per column; the
  entry of a column is the number of its cells that are not missing.
\<close>

definition frame_count :: "'r list \<Rightarrow> ('r \<Rightarrow> 'v option) \<Rightarrow> nat" where
  "frame_count df col = series_count col df"

text \<open>\<^verbatim>\<open>df[col].unique()\<close>: the distinct values in order of first appearance.\<close>

primrec unique_from :: "'v list \<Rightarrow> 'v list \<Rightarrow> 'v list" where
  "unique_from seen [] = []"
| "unique_from seen (x # xs) =
     (if x \<in> set seen then unique_from seen xs else x # unique_from (x # seen) xs)"

definition unique :: "('r \<Rightarrow> 'v) \<Rightarrow> 'r list \<Rightarrow> 'v list" where
  "unique col df = unique_from [] (map col df)"

text \<open>\<^verbatim>\<open>df[df[col] == v]\<close>: the rows selected by an exact-match mask.\<close>

definition where_eq :: "('r \<Rightarrow> 'v) \<Rightarrow> 'v \<Rightarrow> 'r list \<Rightarrow> 'r list" where
  "where_eq col v df = filter (\<lambda>r. col r = v) df"

text \<open>
  The same mask on a column whose cells may be missing: a missing cell compares unequal
  to every value, also to a missing one.
\<close>

definition where_cell_eq :: "('r \<Rightarrow> 'v option) \<Rightarrow> 'v option \<Rightarrow> 'r list \<Rightarrow> 'r list" where
  "where_cell_eq col v df = filter (\<lambda>r. col r \<noteq> None \<and> col r = v) df"

text \<open>
  \<^verbatim>\<open>df.groupby([key])[col].sum()\<close>: one running total per key, accumulated row by row;
  a row whose key is missing belongs to no group and is dropped; the resulting series is
  indexed by the keys in ascending order.
\<close>

fun add_to_group :: "'k \<Rightarrow> real \<Rightarrow> ('k \<times> real) list \<Rightarrow> ('k \<times> real) list" where
  "add_to_group k v [] = [(k, v)]"
| "add_to_group k v ((k', s) # rest) =
     (if k = k' then (k', s + v) # rest else (k', s) # add_to_group k v rest)"

definition group_totals ::
  "('r \<Rightarrow> 'k option) \<Rightarrow> ('r \<Rightarrow> real) \<Rightarrow> 'r list \<Rightarrow> ('k \<times> real) list" where
  "group_totals key col df =
     foldl (\<lambda>acc r. case key r of None \<Rightarrow> acc | Some k \<Rightarrow> add_to_group k (col r) acc) [] df"

definition groupby_sum ::
  "('r \<Rightarrow> 'k::linorder option) \<Rightarrow> ('r \<Rightarrow> real) \<Rightarrow> 'r list \<Rightarrow> ('k \<times> real) list" where
  "groupby_sum key col df = sort_key fst (group_totals key col df)"

text \<open>\<^verbatim>\<open>series / 1000\<close> on a grouped series\<close>

definition series_div :: "('k \<times> real) list \<Rightarrow> real \<Rightarrow> ('k \<times> real) list" where
  "series_div s d = map (\<lambda>(k, v). (k, v / d)) s"

section \<open>The metrics of the script\<close>

text \<open>
  \<^verbatim>\<open>defences['Shape_Leng'].sum() / 1000\<close>, and the same expression on the low sections
  and on \<^verbatim>\<open>Tot_dist_m\<close> of the survey: metres summed, then kilometres.
\<close>

definition total_length :: "('r \<Rightarrow> real) \<Rightarrow> 'r list \<Rightarrow> real" where
  "total_length col df = series_sum col df / 1000"

text \<open>
  \<^verbatim>\<open>a / b * 100\<close> on two column sums. The sums are numpy scalars: dividing by a zero
  sum raises nothing and gives an infinity or NaN, which the multiplication keeps.
\<close>

datatype npfloat = Finite real | PosInf | NegInf | NaN

definition np_divide :: "real \<Rightarrow> real \<Rightarrow> npfloat" where
  "np_divide a b =
     (if b = 0 then (if a = 0 then NaN else if 0 < a then PosInf else NegInf)
      else Finite (a / b))"

fun np_multiply :: "npfloat \<Rightarrow> real \<Rightarrow> npfloat" where
  "np_multiply (Finite x) c = Finite (x * c)"
| "np_multiply NaN c = NaN"
| "np_multiply PosInf c = (if c = 0 then NaN else if 0 < c then PosInf else NegInf)"
| "np_multiply NegInf c = (if c = 0 then NaN else if 0 < c then NegInf else PosInf)"

definition length_percentage ::
  "('r \<Rightarrow> real) \<Rightarrow> 'r list \<Rightarrow> ('s \<Rightarrow> real) \<Rightarrow> 's list \<Rightarrow> error + npfloat" where
  "length_percentage colA A colB B =
     Inr (np_multiply (np_divide (series_sum colA A) (series_sum colB B)) 100)"

text \<open>
  \<^verbatim>\<open>Low_sections['Shape_Leng'].sum() / defences['Shape_Leng'].sum() * 100\<close> and
  \<^verbatim>\<open>Geophysical_survey_bank_materials['Tot_dist_m'].sum() / defences['Shape_Leng'].sum() * 100\<close>
\<close>

definition low_sections_percentage ::
  "'g length_row list \<Rightarrow> 'g length_row list \<Rightarrow> error + npfloat" where
  "low_sections_percentage lows defs = length_percentage Shape_Leng lows Shape_Leng defs"

definition surveyed_percentage ::
  "'g survey_row list \<Rightarrow> 'g length_row list \<Rightarrow> error + npfloat" where
  "surveyed_percentage survey defs = length_percentage Tot_dist_m survey Shape_Leng defs"

text \<open>
  \<^verbatim>\<open>Geophysical_survey_bank_materials.groupby(['Material'])['Tot_dist_m'].sum() / 1000\<close>,
  and the same grouping by \<^verbatim>\<open>Saturation\<close> and by \<^verbatim>\<open>HS_Hyd_Uni\<close>.
\<close>

definition length_by ::
  "('r \<Rightarrow> 'k::linorder option) \<Rightarrow> ('r \<Rightarrow> real) \<Rightarrow> 'r list \<Rightarrow> ('k \<times> real) list" where
  "length_by key col df = series_div (groupby_sum key col df) 1000"

section \<open>Drawing: keyword arguments, patches, features, events\<close>

datatype kwval = Str string | Num real | Bool bool

type_synonym kwargs = "(string \<times> kwval) list"

text \<open>\<^verbatim>\<open>mpatches.Rectangle(xy, width, height, facecolor=..., edgecolor=..., alpha=...)\<close>\<close>

record rectangle =
  xy :: "real \<times> real"
  width :: real
  height :: real
  facecolor :: string
  edgecolor :: string
  alpha :: real

text \<open>\<^verbatim>\<open>ShapelyFeature(geometries, crs, **kwargs)\<close>\<close>

record 'g shapely_feature =
  geometries :: "'g list"
  crs :: string
  style :: kwargs

text \<open>The axes a drawing call acts on: what \<^verbatim>\<open>get_extent()\<close> returns, and the projection.\<close>

record axes =
  extent :: "real \<times> real \<times> real \<times> real"
  projection :: string

datatype pval = Strs "string list" | Cells "string option list" | Count nat

text \<open>The calls of the script that act on the figure, the console or the disk.\<close>

datatype 'g event =
    Plot "real list" "real list" "string option" kwargs
  | Text real real string kwargs
  | Print string pval
  | Figure "real \<times> real"
  | Axes string
  | AddFeature "'g shapely_feature"
  | SetExtent "real list" string
  | Legend "rectangle list" "string list" kwargs
  | SaveFig string kwargs

text \<open>Python's \<^verbatim>\<open>xs[i]\<close> for an index that is not negative, and \<^verbatim>\<open>i % n\<close>.\<close>

definition py_index :: "'a list \<Rightarrow> nat \<Rightarrow> error + 'a" where
  "py_index xs i = (if i < length xs then Inr (xs ! i) else Inl IndexError)"

definition py_mod :: "nat \<Rightarrow> nat \<Rightarrow> error + nat" where
  "py_mod i n = (if n = 0 then Inl ZeroDivisionError else Inr (i mod n))"

section \<open>generate_handles\<close>

text \<open>
  The loop \<^verbatim>\<open>for i in range(len(labels))\<close> of \<^verbatim>\<open>generate_handles\<close>, from the handles
  appended so far and the indices still to come. The defaults \<^verbatim>\<open>edge='k'\<close> and
  \<^verbatim>\<open>alpha=1\<close> are written out where the function is called.
\<close>

primrec append_handles ::
  "string list \<Rightarrow> string \<Rightarrow> real \<Rightarrow> rectangle list \<Rightarrow> nat list \<Rightarrow> error + rectangle list" where
  "append_handles colors edge a handles [] = Inr handles"
| "append_handles colors edge a handles (i # rest) =
     (case py_mod i (length colors) of
        Inl e \<Rightarrow> Inl e
      | Inr j \<Rightarrow>
         (case py_index colors j of
            Inl e \<Rightarrow> Inl e
          | Inr c \<Rightarrow>
             append_handles colors edge a
               (handles @ [\<lparr>xy = (0, 0), width = 1, height = 1,
                            facecolor = c, edgecolor = edge, alpha = a\<rparr>]) rest))"

definition generate_handles ::
  "string list \<Rightarrow> string list \<Rightarrow> string \<Rightarrow> real \<Rightarrow> error + rectangle list" where
  "generate_handles labels colors edge a = append_handles colors edge a [] [0..<length labels]"

section \<open>scale_bar\<close>

text \<open>Lines 30 to 40 of \<^verbatim>\<open>scale_bar\<close>: the bar and its three labels.\<close>

definition scale_bar_marks :: "axes \<Rightarrow> real \<times> real \<Rightarrow> 'g event list" where
  "scale_bar_marks ax location =
     (case extent ax of (x0, x1, y0, y1) \<Rightarrow>
        let sbx = x0 + (x1 - x0) * fst location;
            sby = y0 + (y1 - y0) * snd location;
            tr = (''transform'', Str (projection ax))
        in [Plot [sbx, sbx - 20000] [sby, sby] None [(''color'', Str ''k''), (''linewidth'', Num 9), tr],
            Plot [sbx, sbx - 10000] [sby, sby] None [(''color'', Str ''k''), (''linewidth'', Num 6), tr],
            Plot [sbx - 10000, sbx - 20000] [sby, sby] None
              [(''color'', Str ''w''), (''linewidth'', Num 6), tr],
            Text sbx (sby - 4500) ''20 km'' [tr, (''fontsize'', Num 10)],
            Text (sbx - 12500) (sby - 4500) ''10 km'' [tr, (''fontsize'', Num 10)],
            Text (sbx - 24500) (sby - 4500) ''0 km'' [tr, (''fontsize'', Num 10)]])"

definition default_location :: "real \<times> real" where
  "default_location = (92 / 100, 95 / 100)"

text \<open>
  The six tables the body loads, and the bounding box \<open>(minx, miny, maxx, maxy)\<close> of
  a basemap geometry, as the geometry library reports it.
\<close>

record ('g, 'a) datasets =
  areas :: "('g, 'a) area_row list"
  bounds :: "'g \<Rightarrow> real \<times> real \<times> real \<times> real"
  defences :: "'g length_row list"
  Low_sections :: "'g length_row list"
  Steep_slopes :: "'g slope_row list"
  Palaeochannels :: "(real \<times> real) channel_row list"
  Geophysical_survey_bank_materials :: "'g survey_row list"

definition myCRS :: string where
  "myCRS = ''OSGB''"

definition areas_colors :: "string list" where
  "areas_colors =
     [''sandybrown'', ''bisque'', ''tan'', ''moccasin'', ''floralwhite'', ''gold'', ''darkkhaki'',
      ''lightgoldenrodyellow'', ''olivedrab'', ''chartreuse'', ''palegreen'', ''mediumspringgreen'',
      ''lightseagreen'', ''paleturquoise'', ''darkturquoise'', ''deepskyblue'', ''mediumpurple'',
      ''darkorchid'', ''plum'', ''m'', ''palevioletred'', ''lightgray'', ''lightcoral'', ''mistyrose'',
      ''peachpuff'', ''navajowhite'', ''orange'', ''lemonchiffon'', ''yellowgreen'', ''c'', ''skyblue'',
      ''violet'', ''fuchsia'', ''indianred'', ''salmon'', ''y'']"

text \<open>\<^verbatim>\<open>area_numbers = list(areas.FloodArea_.unique()); area_numbers.sort()\<close>\<close>

definition area_numbers :: "('g, 'a::linorder) area_row list \<Rightarrow> 'a list" where
  "area_numbers df = sort (unique FloodArea df)"

text \<open>
  The loop \<^verbatim>\<open>for ii, name in enumerate(area_numbers)\<close>: the feature added for each
  name, in order, and the error that stopped the loop, if one did.
\<close>

primrec add_area_features ::
  "string list \<Rightarrow> ('g, 'a) area_row list \<Rightarrow> nat \<Rightarrow> 'a list
     \<Rightarrow> ('a \<times> 'g shapely_feature) list \<times> error option" where
  "add_area_features palette df ii [] = ([], None)"
| "add_area_features palette df ii (name # rest) =
     (case py_index palette ii of
        Inl e \<Rightarrow> ([], Some e)
      | Inr c \<Rightarrow>
         (case add_area_features palette df (Suc ii) rest of
            (feats, e) \<Rightarrow>
              ((name,
                \<lparr>geometries = map geometry (where_eq FloodArea name df), crs = myCRS,
                 style = [(''edgecolor'', Str ''w''), (''facecolor'', Str c),
                          (''linewidth'', Num (1 / 10)), (''alpha'', Num (1 / 4))]\<rparr>) # feats, e)))"

text \<open>The fill colour each area name was given, and the error that stopped the loop.\<close>

definition area_colors ::
  "string list \<Rightarrow> ('g, 'a::linorder) area_row list \<Rightarrow> ('a \<times> kwval option) list \<times> error option" where
  "area_colors palette df =
     (case add_area_features palette df 0 (area_numbers df) of
        (feats, e) \<Rightarrow> (map (\<lambda>(name, feat). (name, map_of (style feat) ''facecolor'')) feats, e))"

text \<open>The console output of the metrics part of the body (lines 99 to 187).\<close>

definition metric_prints :: "('g, 'a) datasets \<Rightarrow> 'g event list" where
  "metric_prints ds =
     [Print ''Name of unique features: '' (Cells (unique Face (Steep_slopes ds))),
      Print ''Number of unique features: '' (Count (length (unique channel (Palaeochannels ds)))),
      Print ''Name of unique features: '' (Cells (unique channel (Palaeochannels ds))),
      Print ''Number of features: '' (Count (row_count (Geophysical_survey_bank_materials ds))),
      Print ''Name of unique features: ''
        (Cells (unique Material (Geophysical_survey_bank_materials ds))),
      Print ''Number of unique features: ''
        (Count (length (unique HS_Hyd_Uni (Geophysical_survey_bank_materials ds)))),
      Print ''Name of unique features: '' (Strs (unique UNIT (areas ds))),
      Print ''Number of unique features: '' (Count (length (unique UNIT (areas ds))))]"

text \<open>
  \<^verbatim>\<open>areas.total_bounds\<close>: the box around the boxes of all rows. For a table with no
  rows its four entries are NaN, here \<open>None\<close>.
\<close>

fun join_bounds ::
  "real \<times> real \<times> real \<times> real \<Rightarrow> real \<times> real \<times> real \<times> real
     \<Rightarrow> real \<times> real \<times> real \<times> real" where
  "join_bounds (minx, miny, maxx, maxy) (minx', miny', maxx', maxy') =
     (min minx minx', min miny miny', max maxx maxx', max maxy maxy')"

definition total_bounds ::
  "('g, 'a) datasets \<Rightarrow> (real \<times> real \<times> real \<times> real) option" where
  "total_bounds ds =
     (case map (bounds ds \<circ> geometry) (areas ds) of
        [] \<Rightarrow> None
      | b # bs \<Rightarrow> Some (fold join_bounds bs b))"

text \<open>
  Lines 191 to 211: the figure, the new axes, the basemap outline and the zoom.
  \<^verbatim>\<open>set_extent\<close> raises ValueError on limits that are NaN. The axes returned are the
  new ones, showing the extent that line 205 sets.
\<close>

definition new_axes :: "real \<times> real \<times> real \<times> real \<Rightarrow> axes" where
  "new_axes b =
     (case b of (xmin, ymin, xmax, ymax) \<Rightarrow>
        \<lparr>extent = (xmin - 10000, xmax + 10000, ymin - 10000, ymax + 10000),
         projection = myCRS\<rparr>)"

definition basemap_setup :: "('g, 'a) datasets \<Rightarrow> 'g event list \<times> (error + axes)" where
  "basemap_setup ds =
     (let opened =
        [Figure (16, 16),
         Axes myCRS,
         AddFeature \<lparr>geometries = map geometry (areas ds), crs = myCRS,
           style = [(''edgecolor'', Str ''lightgray''), (''facecolor'', Str ''w'')]\<rparr>]
      in case total_bounds ds of
           None \<Rightarrow> (opened, Inl ValueError)
         | Some (xmin, ymin, xmax, ymax) \<Rightarrow>
             (opened @
              [SetExtent [xmin - 10000, xmax + 10000, ymin - 10000, ymax + 10000] myCRS,
               Print ''Number of unique features: ''
                 (Count (length (unique FloodArea (areas ds))))],
              Inr (new_axes (xmin, ymin, xmax, ymax))))"

text \<open>Lines 239 to 281: the four overlays added as features, and the palaeochannel points.\<close>

definition overlays :: "('g, 'a) datasets \<Rightarrow> 'g event list" where
  "overlays ds =
     [AddFeature \<lparr>geometries = map geometry (defences ds), crs = myCRS,
        style = [(''edgecolor'', Str ''b''), (''linewidth'', Num 2), (''alpha'', Num (1 / 4))]\<rparr>,
      AddFeature \<lparr>geometries = map geometry (Geophysical_survey_bank_materials ds), crs = myCRS,
        style = [(''edgecolor'', Str ''lime''), (''linewidth'', Num 1)]\<rparr>,
      AddFeature \<lparr>geometries = map geometry (Low_sections ds), crs = myCRS,
        style = [(''edgecolor'', Str ''darkorange''), (''linewidth'', Num 1)]\<rparr>,
      AddFeature \<lparr>geometries = map geometry (Steep_slopes ds), crs = myCRS,
        style = [(''edgecolor'', Str ''k''), (''facecolor'', Str ''k''),
                 (''linewidth'', Num (1 / 10))]\<rparr>,
      Plot (map (fst \<circ> geometry) (Palaeochannels ds)) (map (snd \<circ> geometry) (Palaeochannels ds))
        (Some ''o'') [(''color'', Str ''0.7''), (''ms'', Num 3), (''transform'', Str myCRS)]]"

text \<open>Lines 291 to 309: the five handles, concatenated, and the legend.\<close>

definition legend_handles :: "error + rectangle list" where
  "legend_handles =
     (case generate_handles [''Flood embankments''] [''b''] ''k'' (1 / 4) of
        Inl e \<Rightarrow> Inl e
      | Inr defences_handle \<Rightarrow>
     (case generate_handles [''Low sections of embankments''] [''darkorange''] ''k'' 1 of
        Inl e \<Rightarrow> Inl e
      | Inr Low_sections_handle \<Rightarrow>
     (case generate_handles [''Steep embankment slopes''] [''k''] ''k'' 1 of
        Inl e \<Rightarrow> Inl e
      | Inr Steep_slopes_handle \<Rightarrow>
     (case generate_handles [''Palaeochannel intersections''] [''chocolate''] ''k'' 1 of
        Inl e \<Rightarrow> Inl e
      | Inr Palaeochannels_handle \<Rightarrow>
     (case generate_handles [''Geophysical survey extents''] [''lime''] ''k'' 1 of
        Inl e \<Rightarrow> Inl e
      | Inr Geophysical_survey_bank_materials_handle \<Rightarrow>
          Inr (defences_handle @ Low_sections_handle @ Steep_slopes_handle
               @ Palaeochannels_handle @ Geophysical_survey_bank_materials_handle))))))"

definition legend_labels :: "string list" where
  "legend_labels =
     [''Flood embankments'', ''Low sections of embankments'', ''Steep embankment slopes'',
      ''Palaeochannel intersections'', ''Geophysical survey extents'']"

definition legend_kwargs :: kwargs where
  "legend_kwargs =
     [(''title'', Str ''Legend''), (''title_fontsize'', Num 14), (''fontsize'', Num 12),
      (''loc'', Str ''upper left''), (''frameon'', Bool True), (''framealpha'', Num 1)]"

text \<open>
  Lines 30 to 311, everything in the body of \<^verbatim>\<open>scale_bar\<close> before it calls itself: the
  events in order, then either the error that stopped the body or the axes bound to
  \<^verbatim>\<open>ax\<close> when line 314 is reached (line 196 rebinds \<^verbatim>\<open>ax\<close> to the new axes). The
  body stops with ValueError at line 205 when the basemap has no rows, and with
  IndexError at line 231 when the palette runs out. Expression statements whose value is
  dropped (\<^verbatim>\<open>head\<close>, the sums, counts and percentages, \<^verbatim>\<open>myFig\<close>) leave no event.
\<close>

definition scale_bar_body ::
  "('g, 'a::linorder) datasets \<Rightarrow> axes \<Rightarrow> real \<times> real \<Rightarrow> 'g event list \<times> (error + axes)" where
  "scale_bar_body ds ax location =
     (case basemap_setup ds of
        (basemap, Inl e) \<Rightarrow> (scale_bar_marks ax location @ metric_prints ds @ basemap, Inl e)
      | (basemap, Inr ax') \<Rightarrow>
     (let before = scale_bar_marks ax location @ metric_prints ds @ basemap in
      case add_area_features areas_colors (areas ds) 0 (area_numbers (areas ds)) of
        (feats, Some e) \<Rightarrow> (before @ map (AddFeature \<circ> snd) feats, Inl e)
      | (feats, None) \<Rightarrow>
          (case legend_handles of
             Inl e \<Rightarrow> (before @ map (AddFeature \<circ> snd) feats @ overlays ds, Inl e)
           | Inr handles \<Rightarrow>
               (before @ map (AddFeature \<circ> snd) feats @ overlays ds
                  @ [Legend handles legend_labels legend_kwargs],
                Inr ax'))))"

text \<open>
  \<^verbatim>\<open>scale_bar(ax, location)\<close>. Line 314 calls \<^verbatim>\<open>scale_bar(ax)\<close> again, on the new axes
  and with the default location; line 319 saves the figure once that call has returned.
  The first argument is the interpreter's recursion limit, counted in nested calls of
  \<^verbatim>\<open>scale_bar\<close>: a call beyond the limit is not entered and raises RecursionError.
  Nothing in the script catches an exception, so an error raised in a nested call ends
  every call around it.
\<close>

datatype outcome = Returned | Raised error

fun scale_bar ::
  "nat \<Rightarrow> ('g, 'a::linorder) datasets \<Rightarrow> axes \<Rightarrow> real \<times> real \<Rightarrow> 'g event list \<times> outcome" where
  "scale_bar 0 ds ax location = ([], Raised RecursionError)"
| "scale_bar (Suc limit) ds ax location =
     (case scale_bar_body ds ax location of
        (evs, Inl e) \<Rightarrow> (evs, Raised e)
      | (evs, Inr ax') \<Rightarrow>
          (case scale_bar limit ds ax' default_location of
             (evs', Returned) \<Rightarrow>
               (evs @ evs' @ [SaveFig ''Humber_flood_embankment_data.png''
                                [(''bbox_inches'', Str ''tight''), (''dpi'', Num 800)]], Returned)
           | (evs', Raised e) \<Rightarrow> (evs @ evs', Raised e)))"

text \<open>
  The module itself: its statements are the imports and the two \<^verbatim>\<open>def\<close>s. Nothing at
  module level calls \<^verbatim>\<open>scale_bar\<close> or \<^verbatim>\<open>generate_handles\<close>.
\<close>

definition Humber_flood_embankments_analysis :: "('g, 'a::linorder) datasets \<Rightarrow> 'g event list" where
  "Humber_flood_embankments_analysis ds = []"

text \<open>The files a run has written.\<close>

fun saved_files :: "'g event list \<Rightarrow> (string \<times> kwargs) list" where
  "saved_files [] = []"
| "saved_files (SaveFig path kw # evs) = (path, kw) # saved_files evs"
| "saved_files (_ # evs) = saved_files evs"

section \<open>Sample tables\<close>

definition sample_areas :: "(nat, nat) area_row list" where
  "sample_areas =
     [\<lparr>geometry = 1, UNIT = ''Upper Humber'', FloodArea = 20\<rparr>,
      \<lparr>geometry = 2, UNIT = ''Lower Humber'', FloodArea = 10\<rparr>,
      \<lparr>geometry = 3, UNIT = ''Upper Humber'', FloodArea = 20\<rparr>]"

definition sample_defences :: "nat length_row list" where
  "sample_defences =
     [\<lparr>geometry = 4, Shape_Leng = 300000\<rparr>, \<lparr>geometry = 5, Shape_Leng = 250000\<rparr>]"

definition sample_low_sections :: "nat length_row list" where
  "sample_low_sections = [\<lparr>geometry = 6, Shape_Leng = 8250\<rparr>]"

definition sample_steep_slopes :: "nat slope_row list" where
  "sample_steep_slopes =
     [\<lparr>geometry = 7, Face = Some ''Front''\<rparr>, \<lparr>geometry = 8, Face = Some ''Rear''\<rparr>,
      \<lparr>geometry = 9, Face = Some ''Rear''\<rparr>]"

definition sample_palaeochannels :: "(real \<times> real) channel_row list" where
  "sample_palaeochannels =
     [\<lparr>geometry = (500000, 420000), Class = Some ''A'', channel = Some ''Depression''\<rparr>,
      \<lparr>geometry = (510000, 425000), Class = Some ''B'', channel = Some ''Extrusion''\<rparr>]"

definition sample_survey :: "nat survey_row list" where
  "sample_survey =
     [\<lparr>geometry = 10, Tot_dist_m = 1000, Material = Some ''SAND'', Saturation = Some ''Normal'',
       HS_Hyd_Uni = Some ''Upper Humber''\<rparr>,
      \<lparr>geometry = 11, Tot_dist_m = 500, Material = Some ''CLAY'', Saturation = Some ''High'',
       HS_Hyd_Uni = Some ''Upper Humber''\<rparr>,
      \<lparr>geometry = 12, Tot_dist_m = 250, Material = Some ''SAND'', Saturation = Some ''Normal'',
       HS_Hyd_Uni = Some ''Lower Humber''\<rparr>]"

text \<open>The same survey with the material of the second row left blank.\<close>

definition blank_material_survey :: "nat survey_row list" where
  "blank_material_survey =
     [\<lparr>geometry = 10, Tot_dist_m = 1000, Material = Some ''SAND'', Saturation = Some ''Normal'',
       HS_Hyd_Uni = Some ''Upper Humber''\<rparr>,
      \<lparr>geometry = 11, Tot_dist_m = 500, Material = None, Saturation = Some ''High'',
       HS_Hyd_Uni = Some ''Upper Humber''\<rparr>,
      \<lparr>geometry = 12, Tot_dist_m = 250, Material = Some ''SAND'', Saturation = Some ''Normal'',
       HS_Hyd_Uni = Some ''Lower Humber''\<rparr>]"

text \<open>Three steep slopes, the face of the second left blank.\<close>

definition blank_face_slopes :: "nat slope_row list" where
  "blank_face_slopes =
     [\<lparr>geometry = 7, Face = Some ''Front''\<rparr>, \<lparr>geometry = 8, Face = None\<rparr>,
      \<lparr>geometry = 9, Face = Some ''Rear''\<rparr>]"

definition sample_datasets :: "(nat, nat) datasets" where
  "sample_datasets =
     \<lparr>areas = sample_areas,
      bounds = (\<lambda>g. (480000 + 1000 * real g, 400000, 500000 + 1000 * real g, 440000)),
      defences = sample_defences, Low_sections = sample_low_sections,
      Steep_slopes = sample_steep_slopes, Palaeochannels = sample_palaeochannels,
      Geophysical_survey_bank_materials = sample_survey\<rparr>"

definition sample_axes :: axes where
  "sample_axes = \<lparr>extent = (470000, 550000, 390000, 450000), projection = ''OSGB''\<rparr>"

text \<open>A basemap of 37 areas, numbered 0 to 36, one polygon each.\<close>

definition areas_37 :: "(nat, nat) area_row list" where
  "areas_37 = map (\<lambda>i. \<lparr>geometry = i, UNIT = ''Humber'', FloodArea = i\<rparr>) [0..<37]"

definition datasets_37 :: "(nat, nat) datasets" where
  "datasets_37 = sample_datasets\<lparr>areas := areas_37\<rparr>"

text \<open>The sample tables with a basemap of no rows.\<close>

definition empty_basemap :: "(nat, nat) datasets" where
  "empty_basemap = sample_datasets\<lparr>areas := []\<rparr>"

section \<open>Total length\<close>

lemma series_sum_nonneg:
  "(\<And>r. r \<in> set df \<Longrightarrow> 0 \<le> col r) \<Longrightarrow> 0 \<le> series_sum col df"
  unfolding series_sum_def by (rule sum_list_nonneg) auto

lemma series_sum_zero_iff:
  "(\<And>r. r \<in> set df \<Longrightarrow> 0 \<le> col r) \<Longrightarrow>
     series_sum col df = 0 \<longleftrightarrow> (\<forall>r \<in> set df. col r = 0)"
  unfolding series_sum_def by (subst sum_list_nonneg_eq_0_iff) auto

text \<open>
  C6. For a table whose length column is non-negative in every row, the total length
  (the column summed, divided by 1000) is non-negative, and it is zero exactly when the
  table is empty or the column is zero in every row.
\<close>

theorem total_length_nonneg_zero_iff:
  assumes "\<forall>r \<in> set df. 0 \<le> col r"
  shows "0 \<le> total_length col df \<and>
         (total_length col df = 0 \<longleftrightarrow> df = [] \<or> (\<forall>r \<in> set df. col r = 0))"
proof -
  have nn: "\<And>r. r \<in> set df \<Longrightarrow> 0 \<le> col r" using assms by blast
  have "0 \<le> series_sum col df" by (rule series_sum_nonneg) (rule nn)
  moreover have "series_sum col df = 0 \<longleftrightarrow> (\<forall>r \<in> set df. col r = 0)"
    by (rule series_sum_zero_iff) (rule nn)
  ultimately show ?thesis unfolding total_length_def by auto
qed

theorem total_length_nonneg_zero_iff_witness:
  "0 \<le> total_length Shape_Leng [\<lparr>geometry = (1::nat), Shape_Leng = 1500\<rparr>, \<lparr>geometry = 2, Shape_Leng = 0\<rparr>]
   \<and> total_length Shape_Leng [\<lparr>geometry = (1::nat), Shape_Leng = 1500\<rparr>, \<lparr>geometry = 2, Shape_Leng = 0\<rparr>] \<noteq> 0
   \<and> total_length Shape_Leng [\<lparr>geometry = (1::nat), Shape_Leng = 0\<rparr>] = 0"
  using total_length_nonneg_zero_iff
    [of "[\<lparr>geometry = (1::nat), Shape_Leng = 1500\<rparr>, \<lparr>geometry = 2, Shape_Leng = 0\<rparr>]" Shape_Leng]
  by (simp add: total_length_def series_sum_def)


section \<open>Unique values, counts and grouped totals\<close>

lemma set_unique_from: "set (unique_from seen xs) = set xs - set seen"
  by (induction xs arbitrary: seen) auto

lemma distinct_unique_from: "distinct (unique_from seen xs)"
  by (induction xs arbitrary: seen) (auto simp: set_unique_from)

lemma set_unique: "set (unique col df) = col ` set df"
  by (simp add: unique_def set_unique_from)

lemma distinct_unique: "distinct (unique col df)"
  by (simp add: unique_def distinct_unique_from)

lemma sum_list_indicator:
  "distinct vs \<Longrightarrow>
     sum_list (map (\<lambda>v. if a = v then x else 0) vs)
       = (if a \<in> set vs then x else (0::'b::comm_monoid_add))"
  by (induction vs) auto

lemma sum_list_zeros: "sum_list (map (\<lambda>v. 0) vs) = (0::nat)"
  by (induction vs) auto

lemma count_partition:
  "distinct vs \<Longrightarrow> col ` set df \<subseteq> set vs \<Longrightarrow>
   sum_list (map (\<lambda>v. length (filter (\<lambda>r. col r \<noteq> None \<and> col r = v) df)) vs)
     = length (filter (\<lambda>r. col r \<noteq> None) df)"
proof (induction df)
  case Nil
  then show ?case by simp
next
  case (Cons r df)
  let ?n = "\<lambda>v. length (filter (\<lambda>r. col r \<noteq> None \<and> col r = v) df)"
  let ?i = "\<lambda>v. if col r = v then (if col r \<noteq> None then 1 else 0) else (0::nat)"
  have "sum_list (map (\<lambda>v. length (filter (\<lambda>r. col r \<noteq> None \<and> col r = v) (r # df))) vs)
      = sum_list (map (\<lambda>v. ?i v + ?n v) vs)"
    by (rule arg_cong[where f=sum_list]) auto
  also have "\<dots> = sum_list (map ?i vs) + sum_list (map ?n vs)"
    by (simp add: sum_list_addf)
  also have "sum_list (map ?i vs) = (if col r \<noteq> None then 1 else 0)"
    using Cons.prems by (simp add: sum_list_indicator)
  also have "sum_list (map ?n vs) = length (filter (\<lambda>r. col r \<noteq> None) df)"
    using Cons by simp
  finally show ?case by simp
qed

lemma frame_count_where_cell_eq:
  "frame_count (where_cell_eq col v df) col
     = length (filter (\<lambda>r. col r \<noteq> None \<and> col r = v) df)"
  by (simp add: frame_count_def series_count_def where_cell_eq_def conj_commute cong: conj_cong)

text \<open>
  C8, as the code counts. The count of a column under the exact-match mask on a value
  \<open>c\<close>, plus its counts under the mask on every other value of the column, is the
  number of rows whose cell in that column is not missing, which is what
  \<^verbatim>\<open>df[col].count()\<close> gives. It is the number of rows of the table when no cell of
  the column is missing.
\<close>

theorem counts_partition:
  "frame_count (where_cell_eq col c df) col
     + sum_list (map (\<lambda>v. frame_count (where_cell_eq col v df) col)
                  (removeAll c (unique col df)))
   = series_count col df
   \<and> ((\<forall>r \<in> set df. col r \<noteq> None) \<longrightarrow> series_count col df = row_count df)"
proof
  let ?n = "\<lambda>v. length (filter (\<lambda>r. col r \<noteq> None \<and> col r = v) df)"
  have all: "sum_list (map ?n (unique col df)) = length (filter (\<lambda>r. col r \<noteq> None) df)"
    by (rule count_partition) (simp_all add: distinct_unique set_unique)
  show "frame_count (where_cell_eq col c df) col
     + sum_list (map (\<lambda>v. frame_count (where_cell_eq col v df) col)
                  (removeAll c (unique col df)))
   = series_count col df"
  proof (cases "c \<in> set (unique col df)")
    case True
    then have "sum_list (map ?n (unique col df))
                 = ?n c + sum_list (map ?n (remove1 c (unique col df)))"
      by (rule sum_list_map_remove1)
    then show ?thesis
      using all by (simp add: distinct_remove1_removeAll distinct_unique
          frame_count_where_cell_eq series_count_def)
  next
    case False
    then have "?n c = 0" by (auto simp: set_unique filter_empty_conv)
    moreover from False have "removeAll c (unique col df) = unique col df" by simp
    ultimately show ?thesis
      using all by (simp add: frame_count_where_cell_eq series_count_def)
  qed
  show "(\<forall>r \<in> set df. col r \<noteq> None) \<longrightarrow> series_count col df = row_count df"
    by (simp add: series_count_def row_count_def)
qed

text \<open>
  On three steep slopes with one blank face, the counts for \<open>Front\<close> and for the
  other values add up to 2; the table has 3 rows.
\<close>

theorem counts_partition_counterexample:
  "frame_count (where_cell_eq Face (Some ''Front'') blank_face_slopes) Face
     + sum_list (map (\<lambda>v. frame_count (where_cell_eq Face v blank_face_slopes) Face)
                  (removeAll (Some ''Front'') (unique Face blank_face_slopes))) = 2
   \<and> row_count blank_face_slopes = 3"
  by (simp add: blank_face_slopes_def frame_count_def series_count_def where_cell_eq_def
      unique_def row_count_def)

theorem counts_partition_witness:
  "series_count Face sample_steep_slopes = row_count sample_steep_slopes
   \<and> frame_count (where_cell_eq Face (Some ''Front'') sample_steep_slopes) Face
     + sum_list (map (\<lambda>v. frame_count (where_cell_eq Face v sample_steep_slopes) Face)
                  (removeAll (Some ''Front'') (unique Face sample_steep_slopes)))
     = row_count sample_steep_slopes"
proof -
  have full: "\<forall>r \<in> set sample_steep_slopes. Face r \<noteq> None"
    by (simp add: sample_steep_slopes_def)
  note part = counts_partition [of Face "Some ''Front''" sample_steep_slopes]
  from part have "(\<forall>r \<in> set sample_steep_slopes. Face r \<noteq> None)
      \<longrightarrow> series_count Face sample_steep_slopes = row_count sample_steep_slopes"
    by (elim conjE)
  from this full have "series_count Face sample_steep_slopes = row_count sample_steep_slopes"
    by (rule mp)
  moreover from part have "frame_count (where_cell_eq Face (Some ''Front'') sample_steep_slopes) Face
     + sum_list (map (\<lambda>v. frame_count (where_cell_eq Face v sample_steep_slopes) Face)
                  (removeAll (Some ''Front'') (unique Face sample_steep_slopes)))
     = series_count Face sample_steep_slopes"
    by (elim conjE)
  ultimately show ?thesis by simp
qed


lemma map_of_add_to_group:
  "map_of (add_to_group k v acc) =
     (map_of acc)(k \<mapsto> (case map_of acc k of None \<Rightarrow> v | Some s \<Rightarrow> s + v))"
  by (induction k v acc rule: add_to_group.induct) (auto simp: fun_eq_iff)

lemma keys_add_to_group:
  "map fst (add_to_group k v acc)
     = (if k \<in> fst ` set acc then map fst acc else map fst acc @ [k])"
  by (induction k v acc rule: add_to_group.induct) auto

lemma sum_add_to_group:
  "sum_list (map snd (add_to_group k v acc)) = v + sum_list (map snd acc)"
  by (induction k v acc rule: add_to_group.induct) auto

lemma group_totals_snoc:
  "group_totals key col (df @ [r]) =
     (case key r of None \<Rightarrow> group_totals key col df
      | Some k \<Rightarrow> add_to_group k (col r) (group_totals key col df))"
  by (simp add: group_totals_def split: option.splits)

lemma group_totals_Nil: "group_totals key col [] = []"
  by (simp add: group_totals_def)

lemma distinct_group_totals: "distinct (map fst (group_totals key col df))"
  by (induction df rule: rev_induct)
    (auto simp: group_totals_snoc group_totals_Nil keys_add_to_group split: option.splits)

lemma keys_group_totals:
  "set (map fst (group_totals key col df)) = {k. Some k \<in> key ` set df}"
proof (induction df rule: rev_induct)
  case Nil
  show ?case by (simp add: group_totals_Nil)
next
  case (snoc r df)
  show ?case
  proof (cases "key r")
    case None
    have "{k. Some k \<in> key ` set (df @ [r])} = {k. Some k \<in> key ` set df}"
      using None by auto
    with snoc None show ?thesis by (simp add: group_totals_snoc)
  next
    case (Some k)
    have "{k. Some k \<in> key ` set (df @ [r])} = insert k {k. Some k \<in> key ` set df}"
      using Some by auto
    with snoc Some show ?thesis
      by (auto simp: group_totals_snoc keys_add_to_group)
  qed
qed

lemma sum_group_totals:
  "sum_list (map snd (group_totals key col df))
     = series_sum col (filter (\<lambda>r. key r \<noteq> None) df)"
  by (induction df rule: rev_induct)
    (auto simp: group_totals_snoc group_totals_Nil sum_add_to_group series_sum_def
      split: option.splits)

lemma map_of_group_totals_filter:
  "map_of (group_totals key col df) k =
     (if Some k \<in> key ` set df
      then Some (sum_list (map col (filter (\<lambda>r. key r = Some k) df))) else None)"
proof (induction df rule: rev_induct)
  case Nil
  then show ?case by (simp add: group_totals_Nil)
next
  case (snoc r df)
  have none: "Some k \<notin> key ` set df \<Longrightarrow> filter (\<lambda>ra. key ra = Some k) df = []"
    by (metis (mono_tags, lifting) filter_False imageI)
  show ?case
  proof (cases "key r")
    case None
    have "Some k \<in> key ` set (df @ [r]) \<longleftrightarrow> Some k \<in> key ` set df"
      using None by auto
    with snoc None show ?thesis by (simp add: group_totals_snoc)
  next
    case (Some k')
    show ?thesis
    proof (cases "k' = k")
      case True
      with Some have kr: "key r = Some k" by simp
      then have mem: "Some k \<in> key ` set (df @ [r])" by force
      show ?thesis
        using snoc kr none
        by (simp add: group_totals_snoc map_of_add_to_group mem del: set_append)
    next
      case False
      with Some have kr: "key r \<noteq> Some k" by simp
      then have "Some k \<in> key ` set (df @ [r]) \<longleftrightarrow> Some k \<in> key ` set df"
        by auto
      with snoc Some False kr show ?thesis
        by (simp add: group_totals_snoc map_of_add_to_group del: set_append)
    qed
  qed
qed

lemma map_of_group_totals:
  "map_of (group_totals key col df) k =
     (if Some k \<in> key ` set df
      then Some (series_sum col (where_cell_eq key (Some k) df)) else None)"
proof -
  have "where_cell_eq key (Some k) df = filter (\<lambda>r. key r = Some k) df"
    unfolding where_cell_eq_def by (rule filter_cong) auto
  then show ?thesis by (simp add: map_of_group_totals_filter series_sum_def)
qed

lemma sum_list_insort_key:
  "sum_list (map g (insort_key f x xs)) = g x + sum_list (map g xs)"
  for g :: "'a \<Rightarrow> real"
  by (induction xs) auto

lemma sum_list_sort_key:
  "sum_list (map g (sort_key f xs)) = sum_list (map g xs)"
  for g :: "'a \<Rightarrow> real"
  by (induction xs) (auto simp: sum_list_insort_key)

lemma map_insort_key: "map f (insort_key f x xs) = insort (f x) (map f xs)"
  by (induction xs) auto

lemma map_sort_key: "map f (sort_key f xs) = sort (map f xs)"
  by (induction xs) (auto simp: map_insort_key)

lemma keys_series_div: "map fst (series_div s d) = map fst s"
  by (induction s) (auto simp: series_div_def)

lemma sum_series_div: "sum_list (map snd (series_div s d)) = sum_list (map snd s) / d"
  by (induction s) (auto simp: series_div_def add_divide_distrib)

lemma in_series_div:
  "(k, v) \<in> set (series_div s d) \<longleftrightarrow> (\<exists>u. (k, u) \<in> set s \<and> v = u / d)"
  by (auto simp: series_div_def)

lemma keys_groupby_sum:
  "map fst (groupby_sum key col df) = sort (map fst (group_totals key col df))"
  by (simp add: groupby_sum_def map_sort_key)

lemma entry_groupby_sum:
  assumes "(k, s) \<in> set (groupby_sum key col df)"
  shows "s = series_sum col (where_cell_eq key (Some k) df)"
proof -
  from assms have "(k, s) \<in> set (group_totals key col df)"
    by (simp add: groupby_sum_def)
  then have "map_of (group_totals key col df) k = Some s"
    by (simp add: distinct_group_totals)
  then show ?thesis
    by (simp add: map_of_group_totals split: if_splits)
qed

lemma filter_all_present: "(\<forall>r \<in> set df. key r \<noteq> None) \<Longrightarrow> filter (\<lambda>r. key r \<noteq> None) df = df"
  by (induction df) auto

text \<open>
  C5, as the code groups. The grouped total, in kilometres, has one entry for each value
  of the grouping column that occurs in the table and no other; the entry of a value is
  the total length of the rows carrying it. The entries add up to the total length of
  the rows whose key is not missing; that is the total length of the table when no key
  is missing.
\<close>

theorem grouped_total_partition:
  fixes key :: "'r \<Rightarrow> 'k::linorder option"
  shows "distinct (map fst (length_by key col df))
    \<and> set (map fst (length_by key col df)) = {k. Some k \<in> key ` set df}
    \<and> (\<forall>(k, s) \<in> set (length_by key col df).
          s = total_length col (where_cell_eq key (Some k) df))
    \<and> sum_list (map snd (length_by key col df))
        = total_length col (filter (\<lambda>r. key r \<noteq> None) df)
    \<and> ((\<forall>r \<in> set df. key r \<noteq> None)
         \<longrightarrow> sum_list (map snd (length_by key col df)) = total_length col df)"
proof (intro conjI)
  show "distinct (map fst (length_by key col df))"
    by (simp add: length_by_def keys_series_div keys_groupby_sum distinct_group_totals)
  show "set (map fst (length_by key col df)) = {k. Some k \<in> key ` set df}"
    using keys_group_totals [of key col df]
    by (simp add: length_by_def keys_series_div keys_groupby_sum)
  show "\<forall>(k, s) \<in> set (length_by key col df).
          s = total_length col (where_cell_eq key (Some k) df)"
    by (auto simp: length_by_def in_series_div total_length_def dest: entry_groupby_sum)
  show sum: "sum_list (map snd (length_by key col df))
        = total_length col (filter (\<lambda>r. key r \<noteq> None) df)"
    by (simp add: length_by_def sum_series_div groupby_sum_def sum_list_sort_key
        sum_group_totals total_length_def)
  show "(\<forall>r \<in> set df. key r \<noteq> None)
         \<longrightarrow> sum_list (map snd (length_by key col df)) = total_length col df"
    using sum by (simp add: filter_all_present)
qed

text \<open>
  On the survey with one blank material the groups add up to 1.25 km; the table totals
  1.75 km.
\<close>

theorem grouped_total_counterexample:
  "sum_list (map snd (length_by Material Tot_dist_m blank_material_survey)) = 5 / 4
   \<and> total_length Tot_dist_m blank_material_survey = 7 / 4"
  by (simp add: blank_material_survey_def length_by_def groupby_sum_def group_totals_def
      series_div_def total_length_def series_sum_def)

theorem grouped_total_partition_witness:
  "(''CLAY'', 1 / 2) \<in> set (length_by Material Tot_dist_m sample_survey)
   \<and> 1 / 2 = total_length Tot_dist_m (where_cell_eq Material (Some ''CLAY'') sample_survey)
   \<and> sum_list (map snd (length_by Material Tot_dist_m sample_survey))
       = total_length Tot_dist_m sample_survey"
proof -
  have mem: "(''CLAY'', 1 / 2) \<in> set (length_by Material Tot_dist_m sample_survey)"
    by (simp add: length_by_def sample_survey_def groupby_sum_def group_totals_def
        series_div_def)
  have full: "\<forall>r \<in> set sample_survey. Material r \<noteq> None"
    by (simp add: sample_survey_def)
  note part = grouped_total_partition [of Material Tot_dist_m sample_survey]
  from part have "\<forall>(k, s) \<in> set (length_by Material Tot_dist_m sample_survey).
      s = total_length Tot_dist_m (where_cell_eq Material (Some k) sample_survey)"
    by (elim conjE)
  then have "case (''CLAY'', 1 / 2) of
      (k, s) \<Rightarrow> s = total_length Tot_dist_m (where_cell_eq Material (Some k) sample_survey)"
    using mem by (rule bspec)
  then have entry:
    "1 / 2 = total_length Tot_dist_m (where_cell_eq Material (Some ''CLAY'') sample_survey)"
    by (simp only: prod.case)
  from part have "(\<forall>r \<in> set sample_survey. Material r \<noteq> None)
      \<longrightarrow> sum_list (map snd (length_by Material Tot_dist_m sample_survey))
            = total_length Tot_dist_m sample_survey"
    by (elim conjE)
  from this full have "sum_list (map snd (length_by Material Tot_dist_m sample_survey))
       = total_length Tot_dist_m sample_survey"
    by (rule mp)
  with mem entry show ?thesis by (intro conjI)
qed

section \<open>Percentages\<close>

text \<open>
  With no defences loaded the denominator is zero; the percentage of the sample low
  sections is then an infinity, and no error.
\<close>

theorem length_percentage_counterexample:
  "total_length Shape_Leng ([] :: nat length_row list) = 0
   \<and> low_sections_percentage sample_low_sections ([] :: nat length_row list) = Inr PosInf"
  by (simp add: total_length_def series_sum_def low_sections_percentage_def
      length_percentage_def np_divide_def sample_low_sections_def)

text \<open>
  C1, as the script computes it. The percentage never raises. When the total length of
  the denominator table is not zero, it is the total length of the numerator table
  divided by that of the denominator table, times 100. When it is zero, the result is
  NaN for a zero numerator and an infinity of the numerator's sign otherwise.
\<close>

theorem length_percentage_value:
  "length_percentage colA A colB B =
     (if total_length colB B = 0
      then Inr (if total_length colA A = 0 then NaN
                else if 0 < total_length colA A then PosInf else NegInf)
      else Inr (Finite (total_length colA A / total_length colB B * 100)))"
  by (simp add: length_percentage_def np_divide_def total_length_def)

section \<open>Legend handles\<close>

lemma append_handles_upt:
  "colors \<noteq> [] \<Longrightarrow>
   append_handles colors edge a handles [m..<n] =
     Inr (handles @ map (\<lambda>i. \<lparr>xy = (0, 0), width = 1, height = 1,
            facecolor = colors ! (i mod length colors), edgecolor = edge, alpha = a\<rparr>) [m..<n])"
proof (induction "n - m" arbitrary: m handles)
  case 0
  then show ?case by simp
next
  case (Suc k)
  then have lt: "m < n" by simp
  then have upt: "[m..<n] = m # [Suc m..<n]" by (simp add: upt_conv_Cons)
  from Suc have k: "k = n - Suc m" by simp
  show ?case
    using Suc.prems Suc.hyps(1) [OF k Suc.prems]
    by (simp add: upt py_mod_def py_index_def)
qed

text \<open>
  C10. For a non-empty list of colours, \<^verbatim>\<open>generate_handles\<close> returns one rectangle per
  label; the face colour of the i-th is the colour at index i modulo the number of
  colours, and every rectangle carries the given edge colour and alpha.
\<close>

theorem generate_handles_cyclic:
  assumes "colors \<noteq> []"
  shows "\<exists>handles. generate_handles labels colors edge a = Inr handles
     \<and> length handles = length labels
     \<and> (\<forall>i < length labels.
          handles ! i = \<lparr>xy = (0, 0), width = 1, height = 1,
            facecolor = colors ! (i mod length colors), edgecolor = edge, alpha = a\<rparr>)"
  using assms by (simp add: generate_handles_def append_handles_upt)

theorem generate_handles_cyclic_witness:
  "\<exists>handles. generate_handles [''a'', ''b'', ''c''] [''r'', ''g''] ''k'' 1 = Inr handles
     \<and> length handles = 3
     \<and> facecolor (handles ! 2) = ''r'' \<and> facecolor (handles ! 1) = ''g''"
proof -
  have ne: "[''r'', ''g''] \<noteq> ([] :: string list)" by simp
  from generate_handles_cyclic [OF ne, of "[''a'', ''b'', ''c'']" "''k''" 1]
  obtain handles where
    h: "generate_handles [''a'', ''b'', ''c''] [''r'', ''g''] ''k'' 1 = Inr handles"
      "length handles = length [''a'', ''b'', ''c'']"
      "\<forall>i < length [''a'', ''b'', ''c''].
          handles ! i = \<lparr>xy = (0, 0), width = 1, height = 1,
            facecolor = [''r'', ''g''] ! (i mod length [''r'', ''g'']),
            edgecolor = ''k'', alpha = 1\<rparr>"
    by blast
  have "facecolor (handles ! 2) = ''r''"
    using h(3) [rule_format, of 2] by (simp add: numeral_2_eq_2)
  moreover have "facecolor (handles ! 1) = ''g''"
    using h(3) [rule_format, of 1] by simp
  ultimately have "facecolor (handles ! 2) = ''r''" "facecolor (handles ! 1) = ''g''"
    by simp_all
  with h(1,2) show ?thesis by simp
qed

section \<open>The scale bar\<close>

text \<open>
  C9. On axes showing the extent \<open>(x0, x1, y0, y1)\<close>, the bar is anchored 92% across
  and 95% up the extent. A black line spans 20 km (20000 units of the projection) to the
  left of the anchor; over it the 10 km next to the anchor are drawn black and the 10 km
  beyond drawn white; three labels, \<open>0 km\<close>, \<open>10 km\<close> and \<open>20 km\<close>, are
  written from left to right below the bar.
\<close>

theorem scale_bar_marks_layout:
  "scale_bar_marks \<lparr>extent = (x0, x1, y0, y1), projection = p\<rparr> default_location =
     (let sbx = x0 + (x1 - x0) * (92 / 100);
          sby = y0 + (y1 - y0) * (95 / 100)
      in [Plot [sbx, sbx - 20 * 1000] [sby, sby] None
            [(''color'', Str ''k''), (''linewidth'', Num 9), (''transform'', Str p)],
          Plot [sbx, sbx - 10 * 1000] [sby, sby] None
            [(''color'', Str ''k''), (''linewidth'', Num 6), (''transform'', Str p)],
          Plot [sbx - 10 * 1000, sbx - 20 * 1000] [sby, sby] None
            [(''color'', Str ''w''), (''linewidth'', Num 6), (''transform'', Str p)],
          Text sbx (sby - 4500) ''20 km'' [(''transform'', Str p), (''fontsize'', Num 10)],
          Text (sbx - 12500) (sby - 4500) ''10 km''
            [(''transform'', Str p), (''fontsize'', Num 10)],
          Text (sbx - 24500) (sby - 4500) ''0 km''
            [(''transform'', Str p), (''fontsize'', Num 10)]]
        :: 'g event list)"
  by (simp add: scale_bar_marks_def default_location_def Let_def)

section \<open>Basemap colours\<close>

lemma add_area_features_37:
  "snd (add_area_features areas_colors areas_37 0 (area_numbers areas_37)) = Some IndexError"
  by code_simp

text \<open>
  C3. The loop over the sorted area names reads \<^verbatim>\<open>areas_colors[ii]\<close>, with no modulo.
  The palette has 36 entries; on a basemap of 37 areas the first 36 names are coloured
  and the 37th raises IndexError.
\<close>

theorem area_colors_index_error:
  "length (area_numbers areas_37) = 37 \<and> length areas_colors = 36
   \<and> snd (area_colors areas_colors areas_37) = Some IndexError
   \<and> map fst (fst (area_colors areas_colors areas_37)) = [0..<36]"
  by code_simp

lemma add_area_features_colors:
  "map (\<lambda>(name, feat). (name, map_of (style feat) ''facecolor''))
       (fst (add_area_features palette A ii names))
     = map (\<lambda>(name, feat). (name, map_of (style feat) ''facecolor''))
       (fst (add_area_features palette B ii names))
   \<and> snd (add_area_features palette A ii names) = snd (add_area_features palette B ii names)"
proof (induction names arbitrary: ii)
  case Nil
  show ?case by simp
next
  case (Cons name names)
  from Cons [of "Suc ii"] show ?case
    by (cases "add_area_features palette A (Suc ii) names";
        cases "add_area_features palette B (Suc ii) names")
       (simp add: py_index_def)
qed

lemma area_numbers_set:
  assumes "set (map FloodArea A) = set (map FloodArea B)"
  shows "area_numbers A = area_numbers B"
proof -
  have s: "set (area_numbers A) = set (area_numbers B)"
    using assms by (simp add: area_numbers_def set_unique)
  have "sorted (area_numbers A)" "distinct (area_numbers A)"
       "sorted (area_numbers B)" "distinct (area_numbers B)"
    by (simp_all add: area_numbers_def distinct_unique)
  then show ?thesis using s by (rule sorted_distinct_set_unique)
qed

lemma area_colors_fst_snd:
  "area_colors palette df =
     (map (\<lambda>(name, feat). (name, map_of (style feat) ''facecolor''))
        (fst (add_area_features palette df 0 (area_numbers df))),
      snd (add_area_features palette df 0 (area_numbers df)))"
  by (simp add: area_colors_def split: prod.splits)

text \<open>
  C7. Two basemap tables with the same set of area identifiers, whatever the order and
  number of their rows, get the same assignment of fill colours to identifiers (and the
  loop stops with the same error, if it stops).
\<close>

theorem area_colors_row_order:
  assumes "set (map FloodArea A) = set (map FloodArea B)"
  shows "area_colors palette A = area_colors palette B"
proof -
  have n: "area_numbers A = area_numbers B" using assms by (rule area_numbers_set)
  show ?thesis
    using add_area_features_colors [of palette A 0 "area_numbers B" B]
    by (simp add: area_colors_fst_snd n)
qed

theorem area_colors_row_order_witness:
  "set (map FloodArea sample_areas) = set (map FloodArea (rev sample_areas))
   \<and> area_colors areas_colors sample_areas = area_colors areas_colors (rev sample_areas)"
proof -
  have s: "set (map FloodArea sample_areas) = set (map FloodArea (rev sample_areas))"
    by simp
  from s area_colors_row_order [OF s] show ?thesis by (rule conjI)
qed

section \<open>The recursion of scale_bar\<close>

lemma saved_files_append: "saved_files (xs @ ys) = saved_files xs @ saved_files ys"
  by (induction xs rule: saved_files.induct) auto

lemma saved_files_add_features: "saved_files (map (AddFeature \<circ> f) feats) = []"
  by (induction feats) auto

lemma saved_files_marks: "saved_files (scale_bar_marks ax location) = []"
  by (simp add: scale_bar_marks_def Let_def split: prod.splits)

lemma saved_files_prints: "saved_files (metric_prints ds) = []"
  by (simp add: metric_prints_def)

lemma saved_files_setup: "saved_files (fst (basemap_setup ds)) = []"
  by (simp add: basemap_setup_def Let_def split: prod.splits option.splits)

lemma saved_files_overlays: "saved_files (overlays ds) = []"
  by (simp add: overlays_def)

lemma saved_files_body: "saved_files (fst (scale_bar_body ds ax location)) = []"
proof (cases "basemap_setup ds")
  case (Pair opened r)
  have opened: "saved_files opened = []"
    using saved_files_setup [of ds] Pair by simp
  show ?thesis
    using Pair opened
    by (simp add: scale_bar_body_def Let_def saved_files_append saved_files_add_features
        saved_files_marks saved_files_prints saved_files_overlays
        split: prod.splits option.splits sum.splits)
qed

lemma scale_bar_raises: "\<exists>e. snd (scale_bar limit ds ax location) = Raised e"
proof (induction limit arbitrary: ax location)
  case 0
  show ?case by simp
next
  case (Suc limit)
  show ?case
  proof (cases "scale_bar_body ds ax location")
    case (Pair evs r)
    show ?thesis
    proof (cases r)
      case (Inl e)
      with Pair show ?thesis by simp
    next
      case (Inr ax')
      obtain evs' out where rec: "scale_bar limit ds ax' default_location = (evs', out)"
        by (cases "scale_bar limit ds ax' default_location")
      with Suc [of ax' default_location] obtain e where "out = Raised e" by auto
      with Pair Inr rec show ?thesis by simp
    qed
  qed
qed

lemma saved_files_scale_bar: "saved_files (fst (scale_bar limit ds ax location)) = []"
proof (induction limit arbitrary: ax location)
  case 0
  show ?case by simp
next
  case (Suc limit)
  show ?case
  proof (cases "scale_bar_body ds ax location")
    case (Pair evs r)
    have evs: "saved_files evs = []"
      using saved_files_body [of ds ax location] Pair by simp
    show ?thesis
    proof (cases r)
      case (Inl e)
      with Pair evs show ?thesis by simp
    next
      case (Inr ax')
      obtain evs' out where rec: "scale_bar limit ds ax' default_location = (evs', out)"
        by (cases "scale_bar limit ds ax' default_location")
      from Suc [of ax' default_location] rec have evs': "saved_files evs' = []" by simp
      from scale_bar_raises [of limit ds ax' default_location] rec
      obtain e where "out = Raised e" by auto
      with Pair Inr rec evs evs' show ?thesis
        by (simp add: saved_files_append)
    qed
  qed
qed

lemma add_area_features_fits:
  "ii + length names \<le> length palette \<Longrightarrow>
     snd (add_area_features palette df ii names) = None"
proof (induction names arbitrary: ii)
  case Nil
  show ?case by simp
next
  case (Cons name names)
  then have "Suc ii + length names \<le> length palette" by simp
  from Cons.IH [OF this] Cons.prems show ?case
    by (cases "add_area_features palette df (Suc ii) names") (simp add: py_index_def)
qed

lemma legend_handles_ok: "\<exists>handles. legend_handles = Inr handles"
  by (simp add: legend_handles_def generate_handles_def py_mod_def py_index_def)

lemma basemap_setup_ok:
  assumes "areas ds \<noteq> []"
  shows "\<exists>ax'. snd (basemap_setup ds) = Inr ax'"
proof -
  from assms obtain b where "total_bounds ds = Some b"
    by (cases "areas ds") (simp_all add: total_bounds_def)
  then show ?thesis
    by (cases b) (simp add: basemap_setup_def Let_def)
qed

lemma scale_bar_body_reaches_call:
  assumes "areas ds \<noteq> []" and "length (area_numbers (areas ds)) \<le> length areas_colors"
  shows "\<exists>ax'. snd (scale_bar_body ds ax location) = Inr ax'"
proof -
  from assms(1) obtain opened ax' where s: "basemap_setup ds = (opened, Inr ax')"
    using basemap_setup_ok [of ds] by (cases "basemap_setup ds") auto
  from assms(2)
  have "snd (add_area_features areas_colors (areas ds) 0 (area_numbers (areas ds))) = None"
    by (intro add_area_features_fits) simp
  then obtain feats where
    f: "add_area_features areas_colors (areas ds) 0 (area_numbers (areas ds)) = (feats, None)"
    by (cases "add_area_features areas_colors (areas ds) 0 (area_numbers (areas ds))") simp
  obtain handles where h: "legend_handles = Inr handles"
    using legend_handles_ok by blast
  show ?thesis by (simp add: scale_bar_body_def Let_def s f h)
qed

lemma scale_bar_exhausts_limit:
  assumes "areas ds \<noteq> []" and "length (area_numbers (areas ds)) \<le> length areas_colors"
  shows "snd (scale_bar limit ds ax location) = Raised RecursionError"
proof (induction limit arbitrary: ax location)
  case 0
  show ?case by simp
next
  case (Suc limit)
  obtain evs ax' where body: "scale_bar_body ds ax location = (evs, Inr ax')"
    using scale_bar_body_reaches_call [OF assms, of ax location]
    by (cases "scale_bar_body ds ax location") auto
  obtain evs' where
    rec: "scale_bar limit ds ax' default_location = (evs', Raised RecursionError)"
    using Suc [of ax' default_location]
    by (cases "scale_bar limit ds ax' default_location") simp
  from body rec show ?case by simp
qed

lemma sample_basemap_fits:
  "areas sample_datasets \<noteq> []
   \<and> length (area_numbers (areas sample_datasets)) \<le> length areas_colors"
  by code_simp

lemma scale_bar_body_raised:
  "snd (scale_bar_body ds ax location) = Inl e \<Longrightarrow>
     snd (scale_bar (Suc limit) ds ax location) = Raised e"
  by (cases "scale_bar_body ds ax location") simp

lemma scale_bar_body_empty_basemap:
  assumes "areas ds = []"
  shows "snd (scale_bar_body ds ax location) = Inl ValueError"
proof -
  from assms have "total_bounds ds = None" by (simp add: total_bounds_def)
  then obtain opened where "basemap_setup ds = (opened, Inl ValueError)"
    by (simp add: basemap_setup_def Let_def)
  then show ?thesis by (simp add: scale_bar_body_def)
qed

lemma scale_bar_body_palette_runs_out:
  assumes "areas ds \<noteq> []"
    and "snd (add_area_features areas_colors (areas ds) 0 (area_numbers (areas ds))) = Some e"
  shows "snd (scale_bar_body ds ax location) = Inl e"
proof -
  from assms(1) obtain opened ax' where s: "basemap_setup ds = (opened, Inr ax')"
    using basemap_setup_ok [of ds] by (cases "basemap_setup ds") auto
  from assms(2) obtain feats where
    f: "add_area_features areas_colors (areas ds) 0 (area_numbers (areas ds)) = (feats, Some e)"
    by (cases "add_area_features areas_colors (areas ds) 0 (area_numbers (areas ds))") simp
  show ?thesis by (simp add: scale_bar_body_def Let_def s f)
qed

text \<open>
  With a recursion limit of 969 nested calls, a call of \<^verbatim>\<open>scale_bar\<close> ends: on the
  sample tables with RecursionError, on a basemap of no rows with ValueError at line 205
  in its first invocation, and on a basemap of 37 areas with IndexError at line 231 in
  its first invocation.
\<close>

theorem scale_bar_ends_counterexample:
  "snd (scale_bar 969 sample_datasets sample_axes default_location) = Raised RecursionError
   \<and> snd (scale_bar 969 empty_basemap sample_axes default_location) = Raised ValueError
   \<and> snd (scale_bar 969 datasets_37 sample_axes default_location) = Raised IndexError"
proof (intro conjI)
  have limit: "(969::nat) = Suc 968" by simp
  show "snd (scale_bar 969 sample_datasets sample_axes default_location)
          = Raised RecursionError"
    using sample_basemap_fits by (intro scale_bar_exhausts_limit) simp_all
  have "areas empty_basemap = []" by (simp add: empty_basemap_def)
  then have "snd (scale_bar_body empty_basemap sample_axes default_location) = Inl ValueError"
    by (rule scale_bar_body_empty_basemap)
  then show "snd (scale_bar 969 empty_basemap sample_axes default_location)
          = Raised ValueError"
    unfolding limit by (rule scale_bar_body_raised)
  have a: "areas datasets_37 = areas_37" by (simp add: datasets_37_def)
  have "areas_37 \<noteq> []" by (simp add: areas_37_def)
  with a have "areas datasets_37 \<noteq> []" by simp
  moreover have "snd (add_area_features areas_colors (areas datasets_37) 0
      (area_numbers (areas datasets_37))) = Some IndexError"
    unfolding a by (rule add_area_features_37)
  ultimately
  have "snd (scale_bar_body datasets_37 sample_axes default_location) = Inl IndexError"
    by (rule scale_bar_body_palette_runs_out)
  then show "snd (scale_bar 969 datasets_37 sample_axes default_location) = Raised IndexError"
    unfolding limit by (rule scale_bar_body_raised)
qed

text \<open>
  C4, as the code behaves. For every axes, location, tables and recursion limit, a call
  of \<^verbatim>\<open>scale_bar\<close> ends by raising an error, never by returning, and saves no file:
  line 319 is never reached. When the basemap has a row and no more distinct area
  identifiers than the palette has colours, every invocation reaches line 314 and calls
  \<^verbatim>\<open>scale_bar\<close> again, so the error is the RecursionError of the call beyond the
  limit: the recursion has no base case.
\<close>

theorem scale_bar_never_saves:
  "(\<exists>e. snd (scale_bar limit ds ax location) = Raised e)
   \<and> saved_files (fst (scale_bar limit ds ax location)) = []
   \<and> (areas ds \<noteq> [] \<and> length (area_numbers (areas ds)) \<le> length areas_colors
        \<longrightarrow> snd (scale_bar limit ds ax location) = Raised RecursionError)"
  by (simp add: scale_bar_raises saved_files_scale_bar scale_bar_exhausts_limit)

theorem scale_bar_never_saves_witness:
  "areas sample_datasets \<noteq> []
   \<and> length (area_numbers (areas sample_datasets)) \<le> length areas_colors
   \<and> snd (scale_bar 1000 sample_datasets sample_axes default_location) = Raised RecursionError"
proof -
  have fits: "areas sample_datasets \<noteq> []
      \<and> length (area_numbers (areas sample_datasets)) \<le> length areas_colors"
    by code_simp
  from scale_bar_never_saves [of 1000 sample_datasets sample_axes default_location]
  have "areas sample_datasets \<noteq> []
      \<and> length (area_numbers (areas sample_datasets)) \<le> length areas_colors
        \<longrightarrow> snd (scale_bar 1000 sample_datasets sample_axes default_location)
              = Raised RecursionError"
    by (elim conjE)
  from this fits
  have "snd (scale_bar 1000 sample_datasets sample_axes default_location) = Raised RecursionError"
    by (rule mp)
  with fits show ?thesis by simp
qed

text \<open>
  C2. Running the module on the sample tables writes no file, and neither does a call
  of \<^verbatim>\<open>scale_bar\<close> on them: the image
  \<^verbatim>\<open>Humber_flood_embankment_data.png\<close> is not produced.
\<close>

theorem script_saves_nothing:
  "saved_files (Humber_flood_embankments_analysis sample_datasets) = []
   \<and> saved_files (fst (scale_bar 5 sample_datasets sample_axes default_location)) = []"
  by (simp add: Humber_flood_embankments_analysis_def saved_files_scale_bar)

end
